theory Spec2Isabelle
  imports Main "HOL-Library.Word"
begin

section \<open>The heap-bound allocator hook (ECE198Project/Core/Src/sysmem.c)\<close>

text \<open>
  The target is a 32-bit Cortex-M4: pointers and \<open>uintptr_t\<close> are 32-bit words,
  \<open>ptrdiff_t\<close> is a 32-bit two's complement value. Adding a \<open>ptrdiff_t\<close> to a
  \<open>uint8_t *\<close> is the wrapping addition of 32-bit words (a negative increment is
  the word whose \<open>sint\<close> is negative), and pointers are compared as unsigned
  addresses.
\<close>

type_synonym addr = "32 word"

text \<open>
  The three symbols of the linker script that \<open>_sbrk\<close> declares \<open>extern\<close>:
  the addresses \<open>&_end\<close> and \<open>&_estack\<close>, and the \<open>uint32_t\<close> value that the
  code reads from \<open>_Min_Stack_Size\<close>. The linker script is not among the sources,
  so the three are parameters of the model.
\<close>

record linker_symbols =
  sym_end :: addr
  sym_estack :: addr
  Min_Stack_Size :: "32 word"

text \<open>
  The state the function touches: the file-scope \<open>__sbrk_heap_end\<close> and
  \<open>errno\<close>.
\<close>

record sysmem_state =
  sbrk_heap_end :: addr
  errno :: int

definition NULL :: addr where
  "NULL = 0"

text \<open>
  Modelled from the spec: \<open>errno.h\<close> is not among the sources; \<open>ENOMEM\<close> is the
  out-of-memory error indicator (12 in newlib).
\<close>

definition ENOMEM :: int where
  "ENOMEM = 12"

text \<open>Lines 61-63: \<open>estack_addr - (uintptr_t)_Min_Stack_Size\<close>, in \<open>uintptr_t\<close>.\<close>

definition stack_limit :: "linker_symbols \<Rightarrow> addr" where
  "stack_limit L = sym_estack L - Min_Stack_Size L"

definition max_heap :: "linker_symbols \<Rightarrow> addr" where
  "max_heap L = stack_limit L"

text \<open>Lines 67-70: the heap end is initialised at the first call.\<close>

definition heap_init :: "linker_symbols \<Rightarrow> sysmem_state \<Rightarrow> sysmem_state" where
  "heap_init L s =
     (if sbrk_heap_end s = NULL then s\<lparr>sbrk_heap_end := sym_end L\<rparr> else s)"

text \<open>
  \<open>_sbrk(incr)\<close>: the returned pointer and the state after the call.
  \<open>(void *)-1\<close> is the word \<open>- 1\<close>, that is \<open>0xFFFFFFFF\<close>.
\<close>

definition sbrk :: "linker_symbols \<Rightarrow> 32 word \<Rightarrow> sysmem_state \<Rightarrow> addr \<times> sysmem_state" where
  "sbrk L incr s =
     (let s1 = heap_init L s in
      if sbrk_heap_end s1 + incr > max_heap L
      then (- 1, s1\<lparr>errno := ENOMEM\<rparr>)
      else (sbrk_heap_end s1, s1\<lparr>sbrk_heap_end := sbrk_heap_end s1 + incr\<rparr>))"

text \<open>
  A call is accepted when the test of line 73 is false, so that lines 79-82 run.
\<close>

definition accepted :: "linker_symbols \<Rightarrow> 32 word \<Rightarrow> sysmem_state \<Rightarrow> bool" where
  "accepted L incr s = (\<not> sbrk_heap_end (heap_init L s) + incr > max_heap L)"

text \<open>A sequence of calls, one per increment, threading the state.\<close>

fun sbrk_calls :: "linker_symbols \<Rightarrow> 32 word list \<Rightarrow> sysmem_state \<Rightarrow> sysmem_state" where
  "sbrk_calls L [] s = s"
| "sbrk_calls L (incr # incrs) s = sbrk_calls L incrs (snd (sbrk L incr s))"

text \<open>The state at reset: \<open>__sbrk_heap_end\<close> is \<open>NULL\<close>, \<open>errno\<close> is 0.\<close>

definition reset_state :: sysmem_state where
  "reset_state = \<lparr>sbrk_heap_end = NULL, errno = 0\<rparr>"

text \<open>
  The layout of the scenario in section 8 of the specification: the static
  data ends at \<open>0x20000000\<close> and the boundary is \<open>0x20001000\<close>.
\<close>

definition example_layout :: linker_symbols where
  "example_layout =
     \<lparr>sym_end = 0x20000000, sym_estack = 0x20001400, Min_Stack_Size = 0x400\<rparr>"

text \<open>The state of that scenario after its first request has been granted.\<close>

definition mid_state :: sysmem_state where
  "mid_state = \<lparr>sbrk_heap_end = 0x20000800, errno = 0\<rparr>"

text \<open>A layout whose static data ends above the stack-reserved boundary.\<close>

definition tight_layout :: linker_symbols where
  "tight_layout =
     \<lparr>sym_end = 0x20001800, sym_estack = 0x20002000, Min_Stack_Size = 0x1000\<rparr>"

text \<open>A layout in the upper half of the address space.\<close>

definition high_layout :: linker_symbols where
  "high_layout =
     \<lparr>sym_end = 0xF0000000, sym_estack = 0xF0002000, Min_Stack_Size = 0x1000\<rparr>"

section \<open>The acquisition loop (Core/Src/main.c)\<close>

text \<open>
  Modelled from the spec: the HAL headers are not among the sources. A HAL call
  reports success, \<open>HAL_OK\<close>, or a failure; \<open>main.c\<close> only ever compares a
  status with \<open>HAL_OK\<close>.
\<close>

datatype HAL_StatusTypeDef = HAL_OK | HAL_ERROR | HAL_BUSY | HAL_TIMEOUT

text \<open>
  What the program does to the peripherals, in program order: the HAL calls
  and clock-enable macros of \<open>main.c\<close>. A transmit carries the bytes sent, a
  delay its milliseconds.
\<close>

datatype event =
    Call_HAL_Init
  | RCC_GPIOA_CLK_ENABLE
  | RCC_ADC1_CLK_ENABLE
  | Call_HAL_ADC_Init
  | Call_HAL_ADC_ConfigChannel
  | RCC_USART2_CLK_ENABLE
  | Call_HAL_UART_Init
  | Call_HAL_ADC_Start
  | Call_HAL_ADC_PollForConversion
  | Call_HAL_ADC_GetValue
  | Call_HAL_UART_Transmit string
  | Call_HAL_Delay nat

text \<open>
  Where control is at the end of an observation: the procedure has returned
  to its caller, or control is inside the loop of \<open>Error_Handler\<close>, or inside
  the \<open>while (1)\<close> of \<open>main\<close>.
\<close>

datatype control = Returned | In_Error_Handler | In_Sampling_Loop

type_synonym run = "event list \<times> control"

definition call :: "event \<Rightarrow> run" where
  "call e = ([e], Returned)"

definition skip :: run where
  "skip = ([], Returned)"

text \<open>
  Sequential composition: the second statement runs only if the first
  returns.
\<close>

definition then_run :: "run \<Rightarrow> run \<Rightarrow> run" where
  "then_run p q =
     (case snd p of
        Returned \<Rightarrow> (fst p @ fst q, snd q)
      | In_Error_Handler \<Rightarrow> p
      | In_Sampling_Loop \<Rightarrow> p)"

text \<open>
  What the hardware answers: the status of each initialisation call and of
  \<open>HAL_ADC_Start\<close>, and, for each pass of the sampling loop in turn, the status
  of \<open>HAL_ADC_PollForConversion\<close> together with the content of the data
  register that \<open>HAL_ADC_GetValue\<close> would read. The list of conversions is the
  finite part of the unbounded run that is observed.
\<close>

record hal_responses =
  r_HAL_ADC_Init :: HAL_StatusTypeDef
  r_HAL_ADC_ConfigChannel :: HAL_StatusTypeDef
  r_HAL_UART_Init :: HAL_StatusTypeDef
  r_HAL_ADC_Start :: HAL_StatusTypeDef
  conversions :: "(HAL_StatusTypeDef \<times> 32 word) list"

text \<open>
  Lines 115-121, \<open>while (1) { }\<close>: every pass of the empty loop uses one unit
  of fuel and leads to the next pass; when the fuel is used up control is
  still inside the loop.
\<close>

fun Error_Handler :: "nat \<Rightarrow> run" where
  "Error_Handler 0 = ([], In_Error_Handler)"
| "Error_Handler (Suc fuel) = Error_Handler fuel"

text \<open>
  The conversion \<open>%lu\<close> of the C library: the decimal digits of an unsigned
  value, most significant first, without leading zeros.
\<close>

definition digit_char :: "nat \<Rightarrow> char" where
  "digit_char d = char_of (48 + d)"

fun dec_lu :: "nat \<Rightarrow> string" where
  "dec_lu n = (if n < 10 then [digit_char n] else dec_lu (n div 10) @ [digit_char (n mod 10)])"

declare dec_lu.simps [simp del]

text \<open>The value that a string of decimal digits denotes.\<close>

definition digit_val :: "char \<Rightarrow> nat" where
  "digit_val c = of_char c - 48"

definition decimal_value :: "string \<Rightarrow> nat" where
  "decimal_value s = foldl (\<lambda>a c. 10 * a + digit_val c) 0 s"

text \<open>Line 47: the text that the format \<open>"ADC: %lu\r\n"\<close> produces.\<close>

definition format_ADC :: "32 word \<Rightarrow> string" where
  "format_ADC adc_value = ''ADC: '' @ dec_lu (unat adc_value) @ [CHR 0x0D, CHR 0x0A]"

text \<open>
  \<open>snprintf(msg, n, ...)\<close> stores at most \<open>n - 1\<close> characters of the formatted
  text and then the terminating zero byte; \<open>strlen\<close> counts the bytes before
  the first zero byte.
\<close>

definition snprintf :: "nat \<Rightarrow> string \<Rightarrow> string" where
  "snprintf n str = (if n = 0 then [] else take (n - 1) str @ [CHR 0x00])"

definition strlen :: "string \<Rightarrow> nat" where
  "strlen s = length (takeWhile (\<lambda>c. c \<noteq> CHR 0x00) s)"

text \<open>
  Lines 40-50, one pass of the loop, given the status of the wait and the
  content of the data register.
\<close>

definition loop_body :: "HAL_StatusTypeDef \<times> 32 word \<Rightarrow> event list" where
  "loop_body c =
     Call_HAL_ADC_PollForConversion #
     (if fst c = HAL_OK
      then (let adc_value = snd c;
                msg = snprintf 20 (format_ADC adc_value)
            in [Call_HAL_ADC_GetValue,
                Call_HAL_UART_Transmit (take (strlen msg) msg),
                Call_HAL_Delay 50])
      else [])"

text \<open>Lines 38-51, \<open>while (1)\<close>: one pass per observed conversion.\<close>

fun sampling_loop :: "(HAL_StatusTypeDef \<times> 32 word) list \<Rightarrow> event list" where
  "sampling_loop [] = []"
| "sampling_loop (c # rest) = loop_body c @ sampling_loop rest"

text \<open>Lines 55-80.\<close>

definition MX_ADC1_Init :: "hal_responses \<Rightarrow> nat \<Rightarrow> run" where
  "MX_ADC1_Init env fuel =
     then_run (call RCC_ADC1_CLK_ENABLE)
    (then_run (call Call_HAL_ADC_Init)
    (then_run (if r_HAL_ADC_Init env \<noteq> HAL_OK then Error_Handler fuel else skip)
    (then_run (call Call_HAL_ADC_ConfigChannel)
              (if r_HAL_ADC_ConfigChannel env \<noteq> HAL_OK then Error_Handler fuel else skip))))"

text \<open>Lines 83-99.\<close>

definition MX_USART2_UART_Init :: "hal_responses \<Rightarrow> nat \<Rightarrow> run" where
  "MX_USART2_UART_Init env fuel =
     then_run (call RCC_USART2_CLK_ENABLE)
    (then_run (call Call_HAL_UART_Init)
              (if r_HAL_UART_Init env \<noteq> HAL_OK then Error_Handler fuel else skip))"

text \<open>Lines 102-112.\<close>

definition MX_GPIO_Init :: run where
  "MX_GPIO_Init = call RCC_GPIOA_CLK_ENABLE"

definition SystemClock_Config :: run where
  "SystemClock_Config = skip"

text \<open>
  Lines 19-52. The status that \<open>HAL_ADC_Start\<close> returns is not read.
\<close>

definition main :: "hal_responses \<Rightarrow> nat \<Rightarrow> run" where
  "main env fuel =
     then_run (call Call_HAL_Init)
    (then_run SystemClock_Config
    (then_run MX_GPIO_Init
    (then_run (MX_ADC1_Init env fuel)
    (then_run (MX_USART2_UART_Init env fuel)
    (then_run (call Call_HAL_ADC_Start)
              (sampling_loop (conversions env), In_Sampling_Loop))))))"

text \<open>The lines sent over the serial channel, in order.\<close>

fun transmitted :: "event list \<Rightarrow> string list" where
  "transmitted [] = []"
| "transmitted (Call_HAL_UART_Transmit m # es) = m # transmitted es"
| "transmitted (e # es) = transmitted es"

text \<open>The calls of a start-up in which every initialisation succeeds.\<close>

definition init_calls :: "event list" where
  "init_calls =
     [Call_HAL_Init, RCC_GPIOA_CLK_ENABLE, RCC_ADC1_CLK_ENABLE, Call_HAL_ADC_Init,
      Call_HAL_ADC_ConfigChannel, RCC_USART2_CLK_ENABLE, Call_HAL_UART_Init]"

text \<open>The three conversions of the scenario in section 8 of the specification.\<close>

definition example_env :: hal_responses where
  "example_env =
     \<lparr>r_HAL_ADC_Init = HAL_OK, r_HAL_ADC_ConfigChannel = HAL_OK,
      r_HAL_UART_Init = HAL_OK, r_HAL_ADC_Start = HAL_OK,
      conversions = [(HAL_OK, 100), (HAL_OK, 2048), (HAL_OK, 4095)]\<rparr>"

section \<open>Properties of the allocator hook\<close>

lemma max_heap_example: "max_heap example_layout = 0x20001000"
  by (simp add: max_heap_def stack_limit_def example_layout_def)

lemma heap_init_idem: "heap_init L (heap_init L s) = heap_init L s"
  by (simp add: heap_init_def)

lemma heap_init_not_first:
  "sbrk_heap_end s \<noteq> NULL \<Longrightarrow> heap_init L s = s"
  by (simp add: heap_init_def)

lemma heap_init_errno_upd:
  "heap_init L (heap_init L s\<lparr>errno := e\<rparr>) = heap_init L s\<lparr>errno := e\<rparr>"
  by (simp add: heap_init_def)

text \<open>
  A non-negative \<open>ptrdiff_t\<close> has the same value read as unsigned, and where
  the sum of an address and an increment stays inside the address space the
  32-bit sum is the sum of the integers.
\<close>

lemma sint_nonneg_uint:
  fixes I :: "32 word"
  assumes "0 \<le> sint I"
  shows "uint I = sint I"
proof -
  have "sint I < 2 ^ 32"
    using sint_lt [of I] by simp
  then have "take_bit 32 (sint I) = sint I"
    using assms by (simp add: take_bit_int_eq_self)
  then show ?thesis
    using uint_sint [of I] by simp
qed

lemma ptr_add_no_wrap:
  fixes h I :: "32 word"
  assumes "0 \<le> uint h + sint I" and "uint h + sint I < 2 ^ 32"
  shows "uint (h + I) = uint h + sint I"
proof -
  have "uint (h + I) = (uint h + uint I) mod 2 ^ 32"
    by (simp add: uint_word_ariths)
  also have "uint I = sint I mod 2 ^ 32"
    using uint_sint [of I] by (simp add: take_bit_eq_mod)
  also have "(uint h + sint I mod 2 ^ 32) mod 2 ^ 32 = (uint h + sint I) mod 2 ^ 32"
    by (simp add: mod_add_right_eq)
  also have "\<dots> = uint h + sint I"
    using assms by simp
  finally show ?thesis .
qed

text \<open>
  C1. Write \<open>h\<close> for the current heap end, which is \<open>__sbrk_heap_end\<close> once the
  first-call initialisation of lines 67-70 has run (on every call but the
  first, \<open>__sbrk_heap_end\<close> itself). Whenever \<open>h + I\<close>, the pointer that line 73
  computes, does not exceed the maximum permissible heap address, \<open>_sbrk(I)\<close>
  returns \<open>h\<close>, the heap end as it stood before the advance, and the heap end
  after the call is exactly \<open>h + I\<close>; \<open>errno\<close> is not touched.
\<close>

theorem sbrk_success:
  assumes "sbrk_heap_end (heap_init L s) + I \<le> max_heap L"
  shows "sbrk L I s =
           (sbrk_heap_end (heap_init L s),
            heap_init L s\<lparr>sbrk_heap_end := sbrk_heap_end (heap_init L s) + I\<rparr>)
       \<and> fst (sbrk L I s) = sbrk_heap_end (heap_init L s)
       \<and> sbrk_heap_end (snd (sbrk L I s)) = sbrk_heap_end (heap_init L s) + I
       \<and> errno (snd (sbrk L I s)) = errno s
       \<and> (sbrk_heap_end s \<noteq> NULL \<longrightarrow>
            fst (sbrk L I s) = sbrk_heap_end s
          \<and> sbrk_heap_end (snd (sbrk L I s)) = sbrk_heap_end s + I)"
proof -
  let ?h = "sbrk_heap_end (heap_init L s)"
  have "\<not> ?h + I > max_heap L"
    using assms by (simp add: not_less)
  then have r: "sbrk L I s = (?h, heap_init L s\<lparr>sbrk_heap_end := ?h + I\<rparr>)"
    by (simp add: sbrk_def Let_def)
  have e: "errno (heap_init L s) = errno s"
    by (simp add: heap_init_def)
  have n: "sbrk_heap_end s \<noteq> NULL \<longrightarrow> ?h = sbrk_heap_end s"
    by (simp add: heap_init_not_first)
  show ?thesis
    unfolding r using e n by simp
qed

theorem sbrk_success_witness:
  "sbrk_heap_end (heap_init example_layout mid_state) + 0x800 \<le> max_heap example_layout
   \<and> sbrk_heap_end mid_state \<noteq> NULL
   \<and> fst (sbrk example_layout 0x800 mid_state) = 0x20000800
   \<and> sbrk_heap_end (snd (sbrk example_layout 0x800 mid_state)) = 0x20001000"
proof -
  have n: "sbrk_heap_end mid_state \<noteq> NULL"
    by (simp add: mid_state_def NULL_def)
  have init: "sbrk_heap_end (heap_init example_layout mid_state) = 0x20000800"
    by (simp add: heap_init_not_first [OF n]) (simp add: mid_state_def)
  have h: "sbrk_heap_end (heap_init example_layout mid_state) + 0x800 \<le> max_heap example_layout"
    by (simp add: init max_heap_example)
  note fact = sbrk_success [OF h]
  have "fst (sbrk example_layout 0x800 mid_state) = 0x20000800"
    using fact [THEN conjunct2, THEN conjunct1] by (simp only: init)
  moreover have "sbrk_heap_end (snd (sbrk example_layout 0x800 mid_state)) = 0x20001000"
    using fact [THEN conjunct2, THEN conjunct2, THEN conjunct1] by (simp add: init)
  ultimately show ?thesis
    using h n by (intro conjI)
qed

text \<open>
  C2. With \<open>h\<close> as before, whenever \<open>h + I\<close> exceeds the maximum permissible
  heap address, \<open>_sbrk(I)\<close> returns \<open>(void *)-1\<close>, sets \<open>errno\<close> to \<open>ENOMEM\<close> and
  leaves the heap end at \<open>h\<close> (on every call but the first, the value
  \<open>__sbrk_heap_end\<close> had before the call); a second call with the same \<open>I\<close>
  returns the same value and leaves the same state.
\<close>

theorem sbrk_out_of_memory:
  assumes "sbrk_heap_end (heap_init L s) + I > max_heap L"
  shows "sbrk L I s = (- 1, heap_init L s\<lparr>errno := ENOMEM\<rparr>)
       \<and> errno (snd (sbrk L I s)) = ENOMEM
       \<and> sbrk_heap_end (snd (sbrk L I s)) = sbrk_heap_end (heap_init L s)
       \<and> sbrk L I (snd (sbrk L I s)) = sbrk L I s
       \<and> (sbrk_heap_end s \<noteq> NULL \<longrightarrow>
            sbrk_heap_end (snd (sbrk L I s)) = sbrk_heap_end s)"
proof -
  let ?s' = "heap_init L s\<lparr>errno := ENOMEM\<rparr>"
  have first: "sbrk L I s = (- 1, ?s')"
    using assms by (simp add: sbrk_def Let_def)
  have "heap_init L ?s' = ?s'"
    by (rule heap_init_errno_upd)
  then have again: "sbrk L I ?s' = (- 1, ?s')"
    using assms by (simp add: sbrk_def Let_def)
  show ?thesis
    using first again by (simp add: heap_init_not_first)
qed

theorem sbrk_out_of_memory_witness:
  "sbrk_heap_end (heap_init example_layout mid_state) + 0x900 > max_heap example_layout
   \<and> sbrk_heap_end mid_state \<noteq> NULL
   \<and> sbrk example_layout 0x900 mid_state = (0xFFFFFFFF, \<lparr>sbrk_heap_end = 0x20000800, errno = 12\<rparr>)
   \<and> sbrk example_layout 0x900 (snd (sbrk example_layout 0x900 mid_state))
       = sbrk example_layout 0x900 mid_state"
proof -
  have n: "sbrk_heap_end mid_state \<noteq> NULL"
    by (simp add: mid_state_def NULL_def)
  have init: "heap_init example_layout mid_state = mid_state"
    using n by (rule heap_init_not_first)
  have h: "sbrk_heap_end (heap_init example_layout mid_state) + 0x900 > max_heap example_layout"
    unfolding init by (simp add: mid_state_def max_heap_example)
  note fact = sbrk_out_of_memory [OF h]
  have r: "sbrk example_layout 0x900 mid_state
            = (- 1, heap_init example_layout mid_state\<lparr>errno := ENOMEM\<rparr>)"
    by (rule fact [THEN conjunct1])
  have again: "sbrk example_layout 0x900 (snd (sbrk example_layout 0x900 mid_state))
            = sbrk example_layout 0x900 mid_state"
    by (rule fact [THEN conjunct2, THEN conjunct2, THEN conjunct2, THEN conjunct1])
  from r have "sbrk example_layout 0x900 mid_state = (- 1, mid_state\<lparr>errno := ENOMEM\<rparr>)"
    by (simp only: init)
  then have "sbrk example_layout 0x900 mid_state
            = (0xFFFFFFFF, \<lparr>sbrk_heap_end = 0x20000800, errno = 12\<rparr>)"
    by (simp add: mid_state_def ENOMEM_def)
  with h n again show ?thesis
    by (intro conjI)
qed

text \<open>
  The bound is kept by a call, and so by any sequence of calls, as soon as the
  static data ends at or below it.
\<close>

lemma sbrk_granted_bounded:
  "accepted L I s \<Longrightarrow> sbrk_heap_end (snd (sbrk L I s)) \<le> max_heap L"
  by (auto simp add: accepted_def sbrk_def Let_def)

lemma sbrk_step_bounded:
  assumes "sym_end L \<le> max_heap L" and "sbrk_heap_end s \<le> max_heap L"
  shows "sbrk_heap_end (snd (sbrk L I s)) \<le> max_heap L"
proof -
  have "sbrk_heap_end (heap_init L s) \<le> max_heap L"
    using assms by (simp add: heap_init_def)
  then show ?thesis
    by (simp add: sbrk_def Let_def not_less)
qed

lemma sbrk_calls_invariant:
  "sym_end L \<le> max_heap L \<Longrightarrow> sbrk_heap_end s \<le> max_heap L \<Longrightarrow>
   sbrk_heap_end (sbrk_calls L incrs s) \<le> max_heap L"
proof (induction incrs arbitrary: s)
  case Nil
  then show ?case by simp
next
  case (Cons incr incrs)
  from Cons.prems have "sbrk_heap_end (snd (sbrk L incr s)) \<le> max_heap L"
    by (rule sbrk_step_bounded)
  with Cons.prems(1) show ?case
    by (simp add: Cons.IH)
qed

text \<open>
  C3, as stated, fails: nothing compares \<open>&_end\<close> with the boundary. With the
  static data ending at \<open>0x20001800\<close> and the boundary at \<open>0x20001000\<close>, the first
  call, \<open>_sbrk(0)\<close>, sets the heap end to \<open>&_end\<close> at line 69, fails at line 73
  and leaves the heap end above the boundary.
\<close>

theorem sbrk_bound_counterexample:
  "max_heap tight_layout = 0x20001000
   \<and> sbrk_heap_end (sbrk_calls tight_layout [0] reset_state) = 0x20001800
   \<and> \<not> sbrk_heap_end (sbrk_calls tight_layout [0] reset_state) \<le> max_heap tight_layout"
  by (simp add: sbrk_def Let_def heap_init_def reset_state_def NULL_def
      max_heap_def stack_limit_def tight_layout_def)

text \<open>
  C3, amended. Provided the baseline \<open>&_end\<close> does not itself exceed the
  stack-reserved boundary, after any sequence of \<open>_sbrk\<close> calls from reset the
  heap-end pointer does not exceed the boundary (top-of-RAM address minus the
  value of \<open>_Min_Stack_Size\<close>).
\<close>

theorem sbrk_calls_bounded:
  assumes "sym_end L \<le> max_heap L"
  shows "sbrk_heap_end (sbrk_calls L incrs reset_state) \<le> sym_estack L - Min_Stack_Size L"
proof -
  have "sbrk_heap_end reset_state \<le> max_heap L"
    by (simp add: reset_state_def NULL_def)
  with assms have "sbrk_heap_end (sbrk_calls L incrs reset_state) \<le> max_heap L"
    by (rule sbrk_calls_invariant)
  then show ?thesis
    by (simp add: max_heap_def stack_limit_def)
qed

theorem sbrk_calls_bounded_witness:
  "sym_end example_layout \<le> max_heap example_layout
   \<and> sbrk_calls example_layout [0x800, 0x900] reset_state = \<lparr>sbrk_heap_end = 0x20000800, errno = 12\<rparr>
   \<and> sbrk_heap_end (sbrk_calls example_layout [0x800, 0x900] reset_state)
       \<le> sym_estack example_layout - Min_Stack_Size example_layout"
proof -
  have h: "sym_end example_layout \<le> max_heap example_layout"
    by (simp add: max_heap_example) (simp add: example_layout_def)
  have run: "sbrk_calls example_layout [0x800, 0x900] reset_state = \<lparr>sbrk_heap_end = 0x20000800, errno = 12\<rparr>"
    by (simp add: sbrk_def Let_def heap_init_def reset_state_def NULL_def max_heap_example ENOMEM_def)
      (simp add: example_layout_def)
  from h run sbrk_calls_bounded [OF h, of "[0x800, 0x900]"] show ?thesis
    by (intro conjI)
qed

text \<open>
  C4, as stated, fails: the increment is signed and a negative one is
  accepted. With the heap end at \<open>0x20000800\<close>, \<open>_sbrk(-0x400)\<close> passes the test
  of line 73, returns \<open>0x20000800\<close> and moves the heap end down to \<open>0x20000400\<close>.
\<close>

theorem sbrk_shrink_counterexample:
  "accepted example_layout (- 0x400) mid_state
   \<and> sbrk example_layout (- 0x400) mid_state
       = (0x20000800, \<lparr>sbrk_heap_end = 0x20000400, errno = 0\<rparr>)
   \<and> sbrk_heap_end (snd (sbrk example_layout (- 0x400) mid_state)) < sbrk_heap_end mid_state"
  by (simp add: accepted_def sbrk_def Let_def heap_init_def mid_state_def NULL_def max_heap_example)

text \<open>
  A non-negative increment can also move the heap end down, when the 32-bit sum
  wraps around the end of the address space.
\<close>

lemma sbrk_wrap_example:
  "accepted high_layout 0x20000000 reset_state
   \<and> sbrk high_layout 0x20000000 reset_state
       = (0xF0000000, \<lparr>sbrk_heap_end = 0x10000000, errno = 0\<rparr>)"
  by (simp add: accepted_def sbrk_def Let_def heap_init_def reset_state_def NULL_def
      max_heap_def stack_limit_def high_layout_def)

text \<open>
  C4, amended. For every increment \<open>I\<close> accepted by \<open>_sbrk\<close> that is not negative
  and whose sum with the current heap end \<open>h\<close> stays inside the 32-bit address
  space, the heap end after the call is greater than or equal to \<open>h\<close>, and to
  the value of \<open>__sbrk_heap_end\<close> before the call.
\<close>

theorem sbrk_grow_monotone:
  assumes "accepted L I s" and "0 \<le> sint I"
    and "uint (sbrk_heap_end (heap_init L s)) + sint I < 2 ^ 32"
  shows "sbrk_heap_end (heap_init L s) \<le> sbrk_heap_end (snd (sbrk L I s))
       \<and> sbrk_heap_end s \<le> sbrk_heap_end (snd (sbrk L I s))"
proof -
  let ?h = "sbrk_heap_end (heap_init L s)"
  have after: "sbrk_heap_end (snd (sbrk L I s)) = ?h + I"
    using assms(1) by (simp add: accepted_def sbrk_def Let_def)
  have "uint ?h + uint I < 2 ^ LENGTH(32)"
    using assms(2,3) by (simp add: sint_nonneg_uint)
  then have grow: "?h \<le> ?h + I"
    by (simp only: no_olen_add)
  have "sbrk_heap_end s \<le> ?h"
    by (simp add: heap_init_def NULL_def)
  with grow after show ?thesis
    by simp
qed

theorem sbrk_grow_monotone_witness:
  "accepted example_layout 0x800 reset_state \<and> 0 \<le> sint (0x800 :: 32 word)
   \<and> uint (sbrk_heap_end (heap_init example_layout reset_state)) + sint (0x800 :: 32 word) < 2 ^ 32
   \<and> sbrk_heap_end (heap_init example_layout reset_state) = 0x20000000
   \<and> sbrk_heap_end (snd (sbrk example_layout 0x800 reset_state)) = 0x20000800
   \<and> sbrk_heap_end (heap_init example_layout reset_state)
       \<le> sbrk_heap_end (snd (sbrk example_layout 0x800 reset_state))"
proof -
  have init: "sbrk_heap_end (heap_init example_layout reset_state) = 0x20000000"
    by (simp add: heap_init_def reset_state_def NULL_def example_layout_def)
  have a: "accepted example_layout 0x800 reset_state"
    by (simp add: accepted_def init max_heap_example)
  have b: "0 \<le> sint (0x800 :: 32 word)"
    by simp
  have c: "uint (sbrk_heap_end (heap_init example_layout reset_state)) + sint (0x800 :: 32 word) < 2 ^ 32"
    by (simp add: init)
  have after: "sbrk_heap_end (snd (sbrk example_layout 0x800 reset_state)) = 0x20000800"
    by (simp add: sbrk_def Let_def init max_heap_example)
  show ?thesis
    using a b c init after sbrk_grow_monotone [OF a b c] by simp
qed

text \<open>
  C5. On the first call, when \<open>__sbrk_heap_end\<close> is still \<open>NULL\<close>, the heap end
  is first set to \<open>&_end\<close>, whatever the increment: the call behaves as a call
  made with the heap end at \<open>&_end\<close>, so the bounds check compares
  \<open>&_end + I\<close> with the boundary, a failure leaves the heap end at \<open>&_end\<close>, and
  a success returns \<open>&_end\<close> and advances the heap end to \<open>&_end + I\<close>.
\<close>

theorem sbrk_first_call:
  assumes "sbrk_heap_end s = NULL"
  shows "heap_init L s = s\<lparr>sbrk_heap_end := sym_end L\<rparr>
       \<and> sbrk L I s = sbrk L I (s\<lparr>sbrk_heap_end := sym_end L\<rparr>)
       \<and> sbrk L I s =
           (if sym_end L + I > max_heap L
            then (- 1, s\<lparr>sbrk_heap_end := sym_end L, errno := ENOMEM\<rparr>)
            else (sym_end L, s\<lparr>sbrk_heap_end := sym_end L + I\<rparr>))"
  using assms by (simp add: sbrk_def Let_def heap_init_def)

theorem sbrk_first_call_witness:
  "sbrk_heap_end reset_state = NULL
   \<and> heap_init example_layout reset_state = \<lparr>sbrk_heap_end = 0x20000000, errno = 0\<rparr>
   \<and> sbrk example_layout 0x1001 reset_state = (0xFFFFFFFF, \<lparr>sbrk_heap_end = 0x20000000, errno = 12\<rparr>)"
proof -
  have h: "sbrk_heap_end reset_state = NULL"
    by (simp add: reset_state_def)
  have m: "sym_end example_layout + 0x1001 > max_heap example_layout"
    by (simp add: max_heap_example) (simp add: example_layout_def)
  note fact = sbrk_first_call [OF h, of example_layout "0x1001"]
  have i: "heap_init example_layout reset_state = reset_state\<lparr>sbrk_heap_end := sym_end example_layout\<rparr>"
    by (rule fact [THEN conjunct1])
  have r: "sbrk example_layout 0x1001 reset_state =
             (- 1, reset_state\<lparr>sbrk_heap_end := sym_end example_layout, errno := ENOMEM\<rparr>)"
    using fact [THEN conjunct2, THEN conjunct2] m by (simp only: if_True)
  from i have i': "heap_init example_layout reset_state = \<lparr>sbrk_heap_end = 0x20000000, errno = 0\<rparr>"
    by (simp add: reset_state_def example_layout_def)
  from r have "sbrk example_layout 0x1001 reset_state
             = (0xFFFFFFFF, \<lparr>sbrk_heap_end = 0x20000000, errno = 12\<rparr>)"
    by (simp add: reset_state_def example_layout_def ENOMEM_def)
  with h i' show ?thesis
    by (intro conjI)
qed

section \<open>Properties of the acquisition loop\<close>

lemma Error_Handler_never_returns: "Error_Handler fuel = ([], In_Error_Handler)"
  by (induction fuel) simp_all

subsection \<open>The formatted line\<close>

lemma digit_val_digit_char: "d < 10 \<Longrightarrow> digit_val (digit_char d) = d"
  by (simp add: digit_val_def digit_char_def)

lemma digit_char_not_NUL: "d < 10 \<Longrightarrow> digit_char d \<noteq> CHR 0x00"
proof
  assume d: "d < 10" and "digit_char d = CHR 0x00"
  then have "of_char (digit_char d) = (of_char (CHR 0x00) :: nat)" by simp
  then have "(48 + d) mod 256 = 0" by (simp add: digit_char_def)
  with d show False by simp
qed

text \<open>\<open>dec_lu\<close> is the decimal rendering: read back, its digits give the number.\<close>

lemma decimal_value_dec_lu: "decimal_value (dec_lu n) = n"
proof (induction n rule: dec_lu.induct)
  case (1 n)
  show ?case
  proof (cases "n < 10")
    case True
    then show ?thesis
      by (simp add: dec_lu.simps [of n] decimal_value_def digit_val_digit_char)
  next
    case False
    with "1.IH" have "decimal_value (dec_lu (n div 10)) = n div 10" by simp
    moreover have "digit_val (digit_char (n mod 10)) = n mod 10"
      by (simp add: digit_val_digit_char)
    ultimately show ?thesis
      using False by (simp add: dec_lu.simps [of n] decimal_value_def)
  qed
qed

lemma dec_lu_no_NUL: "CHR 0x00 \<notin> set (dec_lu n)"
proof (induction n rule: dec_lu.induct)
  case (1 n)
  show ?case
  proof (cases "n < 10")
    case True
    then show ?thesis
      using digit_char_not_NUL [of n] by (simp add: dec_lu.simps [of n])
  next
    case False
    have "n mod 10 < 10" by simp
    then have "digit_char (n mod 10) \<noteq> CHR 0x00" by (rule digit_char_not_NUL)
    with False "1.IH" show ?thesis
      by (auto simp add: dec_lu.simps [of n])
  qed
qed

lemma dec_lu_length: "0 < k \<Longrightarrow> n < 10 ^ k \<Longrightarrow> length (dec_lu n) \<le> k"
proof (induction k arbitrary: n)
  case 0
  then show ?case by simp
next
  case (Suc k)
  show ?case
  proof (cases "n < 10")
    case True
    then show ?thesis by (simp add: dec_lu.simps [of n])
  next
    case False
    then have "0 < k" using Suc.prems by (cases k) simp_all
    moreover have "n div 10 < 10 ^ k"
      using Suc.prems by (simp add: less_mult_imp_div_less mult.commute)
    ultimately have "length (dec_lu (n div 10)) \<le> k" by (rule Suc.IH)
    with False show ?thesis by (simp add: dec_lu.simps [of n])
  qed
qed

lemma dec_lu_u32_length: "length (dec_lu (unat (v :: 32 word))) \<le> 10"
proof -
  have "unat v < 2 ^ 32" using unsigned_less [of v] by simp
  then have "unat v < 10 ^ 10" by simp
  then show ?thesis by (simp add: dec_lu_length)
qed

lemma format_ADC_length: "length (format_ADC v) \<le> 17"
  using dec_lu_u32_length [of v] by (simp add: format_ADC_def)

lemma format_ADC_no_NUL: "CHR 0x00 \<notin> set (format_ADC v)"
  using dec_lu_no_NUL [of "unat v"] by (simp add: format_ADC_def)

lemma strlen_terminated: "CHR 0x00 \<notin> set s \<Longrightarrow> strlen (s @ [CHR 0x00]) = length s"
  by (induction s) (auto simp add: strlen_def)

lemma msg_is_line:
  "take (strlen (snprintf 20 (format_ADC v))) (snprintf 20 (format_ADC v)) = format_ADC v"
proof -
  have "snprintf 20 (format_ADC v) = format_ADC v @ [CHR 0x00]"
    using format_ADC_length [of v] by (simp add: snprintf_def)
  moreover have "strlen (format_ADC v @ [CHR 0x00]) = length (format_ADC v)"
    using format_ADC_no_NUL by (rule strlen_terminated)
  ultimately show ?thesis by simp
qed

lemma format_ADC_100: "format_ADC 100 = ''ADC: 100'' @ [CHR 0x0D, CHR 0x0A]"
  by (simp add: format_ADC_def dec_lu.simps digit_char_def char_of_def bit_0)

lemma format_ADC_2048: "format_ADC 2048 = ''ADC: 2048'' @ [CHR 0x0D, CHR 0x0A]"
  by (simp add: format_ADC_def dec_lu.simps digit_char_def char_of_def bit_0)

lemma format_ADC_4095: "format_ADC 4095 = ''ADC: 4095'' @ [CHR 0x0D, CHR 0x0A]"
  by (simp add: format_ADC_def dec_lu.simps digit_char_def char_of_def bit_0)

lemma format_ADC_max:
  "format_ADC 0xFFFFFFFF = ''ADC: 4294967295'' @ [CHR 0x0D, CHR 0x0A]"
  by (simp add: format_ADC_def dec_lu.simps digit_char_def char_of_def bit_0)

subsection \<open>The loop\<close>

lemma loop_body_OK:
  "loop_body (HAL_OK, v) =
     [Call_HAL_ADC_PollForConversion, Call_HAL_ADC_GetValue,
      Call_HAL_UART_Transmit (format_ADC v), Call_HAL_Delay 50]"
  by (simp add: loop_body_def Let_def msg_is_line)

lemma loop_body_failed:
  "status \<noteq> HAL_OK \<Longrightarrow> loop_body (status, dr) = [Call_HAL_ADC_PollForConversion]"
  by (simp add: loop_body_def)

lemma sampling_loop_append:
  "sampling_loop (cs @ ds) = sampling_loop cs @ sampling_loop ds"
  by (induction cs) simp_all

lemma sampling_loop_starts_with_wait:
  "rest \<noteq> [] \<Longrightarrow> hd (sampling_loop rest) = Call_HAL_ADC_PollForConversion"
  by (cases rest) (simp_all add: loop_body_def)

lemma transmitted_append: "transmitted (es @ fs) = transmitted es @ transmitted fs"
  by (induction es rule: transmitted.induct) simp_all

lemma transmitted_all_OK:
  "transmitted (sampling_loop (map (Pair HAL_OK) vs)) = map format_ADC vs"
  by (induction vs) (simp_all add: loop_body_OK)

text \<open>
  C6. When every wait succeeds, the loop is, for each sample in order, the
  wait, the read, the transmission of one line and the delay of 50 ms, where
  the line is the prefix \<open>ADC: \<close>, the decimal rendering of the 32-bit
  unsigned sample, a carriage return and a line feed; so the lines sent are
  those of the samples, in the order of the samples. For the results
  100, 2048, 4095 they are \<open>ADC: 100\r\n\<close>, \<open>ADC: 2048\r\n\<close>, \<open>ADC: 4095\r\n\<close>.
\<close>

theorem acquisition_lines:
  "sampling_loop (map (Pair HAL_OK) vs) =
     concat (map (\<lambda>v. [Call_HAL_ADC_PollForConversion, Call_HAL_ADC_GetValue,
                        Call_HAL_UART_Transmit (''ADC: '' @ dec_lu (unat v) @ [CHR 0x0D, CHR 0x0A]),
                        Call_HAL_Delay 50]) vs)
   \<and> transmitted (sampling_loop (map (Pair HAL_OK) vs)) =
       map (\<lambda>v. ''ADC: '' @ dec_lu (unat v) @ [CHR 0x0D, CHR 0x0A]) vs
   \<and> transmitted (sampling_loop [(HAL_OK, 100), (HAL_OK, 2048), (HAL_OK, 4095)]) =
       [''ADC: 100'' @ [CHR 0x0D, CHR 0x0A],
        ''ADC: 2048'' @ [CHR 0x0D, CHR 0x0A],
        ''ADC: 4095'' @ [CHR 0x0D, CHR 0x0A]]"
proof (intro conjI)
  show "sampling_loop (map (Pair HAL_OK) vs) =
     concat (map (\<lambda>v. [Call_HAL_ADC_PollForConversion, Call_HAL_ADC_GetValue,
                        Call_HAL_UART_Transmit (''ADC: '' @ dec_lu (unat v) @ [CHR 0x0D, CHR 0x0A]),
                        Call_HAL_Delay 50]) vs)"
    by (induction vs) (simp_all add: loop_body_OK format_ADC_def)
  show "transmitted (sampling_loop (map (Pair HAL_OK) vs)) =
       map (\<lambda>v. ''ADC: '' @ dec_lu (unat v) @ [CHR 0x0D, CHR 0x0A]) vs"
    by (induction vs) (simp_all add: loop_body_OK format_ADC_def)
  show "transmitted (sampling_loop [(HAL_OK, 100), (HAL_OK, 2048), (HAL_OK, 4095)]) =
       [''ADC: 100'' @ [CHR 0x0D, CHR 0x0A],
        ''ADC: 2048'' @ [CHR 0x0D, CHR 0x0A],
        ''ADC: 4095'' @ [CHR 0x0D, CHR 0x0A]]"
    using transmitted_all_OK [of "[100, 2048, 4095]"]
    by (simp add: format_ADC_100 format_ADC_2048 format_ADC_4095)
qed

text \<open>
  C7. A pass of the loop whose wait reports anything but \<open>HAL_OK\<close> consists of
  the wait alone: no read, no transmit, no delay. Wherever the pass stands in
  the run, what follows it is the next pass, which begins with its wait, and
  the lines sent are those of the run without that pass.
\<close>

theorem failed_wait_skips:
  assumes "status \<noteq> HAL_OK"
  shows "loop_body (status, dr) = [Call_HAL_ADC_PollForConversion]
       \<and> sampling_loop (before @ (status, dr) # rest) =
           sampling_loop before @ Call_HAL_ADC_PollForConversion # sampling_loop rest
       \<and> transmitted (sampling_loop (before @ (status, dr) # rest)) =
           transmitted (sampling_loop (before @ rest))
       \<and> (rest \<noteq> [] \<longrightarrow> hd (sampling_loop rest) = Call_HAL_ADC_PollForConversion)"
  using assms
  by (simp add: sampling_loop_append transmitted_append loop_body_failed
      sampling_loop_starts_with_wait)

theorem failed_wait_skips_witness:
  "HAL_TIMEOUT \<noteq> HAL_OK \<and> [(HAL_OK, 4095 :: 32 word)] \<noteq> []
   \<and> sampling_loop ([(HAL_OK, 100)] @ (HAL_TIMEOUT, 7) # [(HAL_OK, 4095)]) =
       [Call_HAL_ADC_PollForConversion, Call_HAL_ADC_GetValue,
        Call_HAL_UART_Transmit (''ADC: 100'' @ [CHR 0x0D, CHR 0x0A]), Call_HAL_Delay 50,
        Call_HAL_ADC_PollForConversion,
        Call_HAL_ADC_PollForConversion, Call_HAL_ADC_GetValue,
        Call_HAL_UART_Transmit (''ADC: 4095'' @ [CHR 0x0D, CHR 0x0A]), Call_HAL_Delay 50]"
proof -
  have h: "HAL_TIMEOUT \<noteq> HAL_OK" by simp
  note fact = failed_wait_skips [OF h, of 7 "[(HAL_OK, 100)]" "[(HAL_OK, 4095)]"]
  have "sampling_loop ([(HAL_OK, 100)] @ (HAL_TIMEOUT, 7) # [(HAL_OK, 4095)]) =
          sampling_loop [(HAL_OK, 100)] @ Call_HAL_ADC_PollForConversion # sampling_loop [(HAL_OK, 4095)]"
    by (rule fact [THEN conjunct2, THEN conjunct1])
  then show ?thesis
    by (simp add: loop_body_OK format_ADC_100 format_ADC_4095)
qed

text \<open>
  C9. For every 32-bit sample the formatted line has at most 17 characters, so
  with its terminating zero byte it fits the 20 bytes of \<open>msg\<close>: \<open>snprintf\<close>
  stores the whole line, and the bytes transmitted are the whole line.
\<close>

theorem line_fits_buffer:
  "length (format_ADC v) + 1 \<le> 20
   \<and> snprintf 20 (format_ADC v) = format_ADC v @ [CHR 0x00]
   \<and> take (strlen (snprintf 20 (format_ADC v))) (snprintf 20 (format_ADC v)) = format_ADC v"
  using format_ADC_length [of v] by (simp add: msg_is_line) (simp add: snprintf_def)

subsection \<open>Start-up\<close>

lemma then_run_call: "then_run (call e) q = (e # fst q, snd q)"
  by (simp add: then_run_def call_def)

lemma then_run_skip: "then_run skip q = q"
  by (simp add: then_run_def skip_def)

lemma then_run_halted: "then_run (es, In_Error_Handler) q = (es, In_Error_Handler)"
  by (simp add: then_run_def)

lemma MX_ADC1_Init_cases:
  "MX_ADC1_Init env fuel =
     (if r_HAL_ADC_Init env \<noteq> HAL_OK then ([RCC_ADC1_CLK_ENABLE, Call_HAL_ADC_Init], In_Error_Handler)
      else if r_HAL_ADC_ConfigChannel env \<noteq> HAL_OK
        then ([RCC_ADC1_CLK_ENABLE, Call_HAL_ADC_Init, Call_HAL_ADC_ConfigChannel], In_Error_Handler)
      else ([RCC_ADC1_CLK_ENABLE, Call_HAL_ADC_Init, Call_HAL_ADC_ConfigChannel], Returned))"
  by (simp add: MX_ADC1_Init_def Error_Handler_never_returns then_run_call then_run_skip
      then_run_halted) (simp add: skip_def)

lemma MX_USART2_UART_Init_cases:
  "MX_USART2_UART_Init env fuel =
     ([RCC_USART2_CLK_ENABLE, Call_HAL_UART_Init],
      if r_HAL_UART_Init env \<noteq> HAL_OK then In_Error_Handler else Returned)"
  by (simp add: MX_USART2_UART_Init_def Error_Handler_never_returns then_run_call)
     (simp add: skip_def)

lemma main_cases:
  "main env fuel =
     (if r_HAL_ADC_Init env \<noteq> HAL_OK
        then ([Call_HAL_Init, RCC_GPIOA_CLK_ENABLE, RCC_ADC1_CLK_ENABLE, Call_HAL_ADC_Init],
              In_Error_Handler)
      else if r_HAL_ADC_ConfigChannel env \<noteq> HAL_OK
        then ([Call_HAL_Init, RCC_GPIOA_CLK_ENABLE, RCC_ADC1_CLK_ENABLE, Call_HAL_ADC_Init,
               Call_HAL_ADC_ConfigChannel], In_Error_Handler)
      else if r_HAL_UART_Init env \<noteq> HAL_OK
        then (init_calls, In_Error_Handler)
      else (init_calls @ Call_HAL_ADC_Start # sampling_loop (conversions env), In_Sampling_Loop))"
  by (simp add: main_def SystemClock_Config_def MX_GPIO_Init_def MX_ADC1_Init_cases
      MX_USART2_UART_Init_cases then_run_call then_run_skip init_calls_def)
     (simp add: then_run_def)

text \<open>
  C8. If \<open>HAL_UART_Init\<close> does not return \<open>HAL_OK\<close>, then however long the run is
  observed (whatever the fuel and whatever conversions the hardware offers)
  control is inside the loop of \<open>Error_Handler\<close>, and the run contains no
  \<open>HAL_ADC_GetValue\<close>, no wait for a conversion and no transmission. When the
  converter was initialised, so that \<open>HAL_UART_Init\<close> is reached, the run is
  exactly the start-up calls up to \<open>HAL_UART_Init\<close>.
\<close>

theorem uart_init_failure_halts:
  assumes "r_HAL_UART_Init env \<noteq> HAL_OK"
  shows "snd (main env fuel) = In_Error_Handler
       \<and> Call_HAL_ADC_GetValue \<notin> set (fst (main env fuel))
       \<and> Call_HAL_ADC_PollForConversion \<notin> set (fst (main env fuel))
       \<and> transmitted (fst (main env fuel)) = []
       \<and> (r_HAL_ADC_Init env = HAL_OK \<and> r_HAL_ADC_ConfigChannel env = HAL_OK
            \<longrightarrow> main env fuel = (init_calls, In_Error_Handler))"
  using assms by (simp add: main_cases init_calls_def)

theorem uart_init_failure_halts_witness:
  "r_HAL_UART_Init (example_env\<lparr>r_HAL_UART_Init := HAL_ERROR\<rparr>) \<noteq> HAL_OK
   \<and> r_HAL_ADC_Init (example_env\<lparr>r_HAL_UART_Init := HAL_ERROR\<rparr>) = HAL_OK
   \<and> r_HAL_ADC_ConfigChannel (example_env\<lparr>r_HAL_UART_Init := HAL_ERROR\<rparr>) = HAL_OK
   \<and> main (example_env\<lparr>r_HAL_UART_Init := HAL_ERROR\<rparr>) 1000 =
       ([Call_HAL_Init, RCC_GPIOA_CLK_ENABLE, RCC_ADC1_CLK_ENABLE, Call_HAL_ADC_Init,
         Call_HAL_ADC_ConfigChannel, RCC_USART2_CLK_ENABLE, Call_HAL_UART_Init],
        In_Error_Handler)"
proof -
  let ?env = "example_env\<lparr>r_HAL_UART_Init := HAL_ERROR\<rparr>"
  have h: "r_HAL_UART_Init ?env \<noteq> HAL_OK" by simp
  have a: "r_HAL_ADC_Init ?env = HAL_OK" by (simp add: example_env_def)
  have c: "r_HAL_ADC_ConfigChannel ?env = HAL_OK" by (simp add: example_env_def)
  have "main ?env 1000 = (init_calls, In_Error_Handler)"
    using uart_init_failure_halts [OF h, of 1000] a c by blast
  then have "main ?env 1000 =
       ([Call_HAL_Init, RCC_GPIOA_CLK_ENABLE, RCC_ADC1_CLK_ENABLE, Call_HAL_ADC_Init,
         Call_HAL_ADC_ConfigChannel, RCC_USART2_CLK_ENABLE, Call_HAL_UART_Init],
        In_Error_Handler)"
    by (simp only: init_calls_def)
  with h a c show ?thesis
    by (intro conjI)
qed

text \<open>
  C10. The status of \<open>HAL_ADC_Start\<close> is not read: when the three
  initialisation calls succeed and \<open>HAL_ADC_Start\<close> fails, \<open>main\<close> still goes
  from the call of \<open>HAL_ADC_Start\<close> into the sampling loop, not into
  \<open>Error_Handler\<close>, and runs as it does when the start succeeds.
\<close>

theorem ADC_Start_unchecked:
  assumes "r_HAL_ADC_Init env = HAL_OK" and "r_HAL_ADC_ConfigChannel env = HAL_OK"
    and "r_HAL_UART_Init env = HAL_OK" and "r_HAL_ADC_Start env \<noteq> HAL_OK"
  shows "main env fuel =
           (init_calls @ Call_HAL_ADC_Start # sampling_loop (conversions env), In_Sampling_Loop)
       \<and> snd (main env fuel) \<noteq> In_Error_Handler
       \<and> main env fuel = main (env\<lparr>r_HAL_ADC_Start := HAL_OK\<rparr>) fuel"
  using assms by (simp add: main_cases)

theorem ADC_Start_unchecked_witness:
  "r_HAL_ADC_Init (example_env\<lparr>r_HAL_ADC_Start := HAL_ERROR\<rparr>) = HAL_OK
   \<and> r_HAL_ADC_ConfigChannel (example_env\<lparr>r_HAL_ADC_Start := HAL_ERROR\<rparr>) = HAL_OK
   \<and> r_HAL_UART_Init (example_env\<lparr>r_HAL_ADC_Start := HAL_ERROR\<rparr>) = HAL_OK
   \<and> r_HAL_ADC_Start (example_env\<lparr>r_HAL_ADC_Start := HAL_ERROR\<rparr>) \<noteq> HAL_OK
   \<and> snd (main (example_env\<lparr>r_HAL_ADC_Start := HAL_ERROR\<rparr>) 0) = In_Sampling_Loop
   \<and> transmitted (fst (main (example_env\<lparr>r_HAL_ADC_Start := HAL_ERROR\<rparr>) 0)) =
       [''ADC: 100'' @ [CHR 0x0D, CHR 0x0A],
        ''ADC: 2048'' @ [CHR 0x0D, CHR 0x0A],
        ''ADC: 4095'' @ [CHR 0x0D, CHR 0x0A]]"
proof -
  let ?env = "example_env\<lparr>r_HAL_ADC_Start := HAL_ERROR\<rparr>"
  have a: "r_HAL_ADC_Init ?env = HAL_OK" by (simp add: example_env_def)
  have c: "r_HAL_ADC_ConfigChannel ?env = HAL_OK" by (simp add: example_env_def)
  have u: "r_HAL_UART_Init ?env = HAL_OK" by (simp add: example_env_def)
  have s: "r_HAL_ADC_Start ?env \<noteq> HAL_OK" by simp
  have convs: "conversions ?env = map (Pair HAL_OK) [100, 2048, 4095]"
    by (simp add: example_env_def)
  have run: "main ?env 0 =
      (init_calls @ Call_HAL_ADC_Start # sampling_loop (conversions ?env), In_Sampling_Loop)"
    by (rule ADC_Start_unchecked [OF a c u s, THEN conjunct1])
  have loc: "snd (main ?env 0) = In_Sampling_Loop"
    by (simp only: run snd_conv)
  have "transmitted (fst (main ?env 0)) = map format_ADC [100, 2048, 4095]"
    by (simp only: run fst_conv convs transmitted_append transmitted_all_OK
        transmitted.simps init_calls_def append_Nil)
  then have "transmitted (fst (main ?env 0)) =
       [''ADC: 100'' @ [CHR 0x0D, CHR 0x0A],
        ''ADC: 2048'' @ [CHR 0x0D, CHR 0x0A],
        ''ADC: 4095'' @ [CHR 0x0D, CHR 0x0A]]"
    by (simp only: list.map format_ADC_100 format_ADC_2048 format_ADC_4095)
  with a c u s loc show ?thesis
    by (intro conjI)
qed

end
